theory Spec2Isabelle
  imports Main "HOL-Library.Sublist" "HOL-Library.AList" "HOL-Library.Word"
begin

section \<open>Strings as the scripts use them\<close>

text \<open>
  The scripts handle SQL identifiers, declared column types and SQL text. They are
  modelled as \<open>string\<close>, read as ASCII text: \<open>upper\<close> is Python's
  \<open>str.upper\<close> on ASCII letters, \<open>py_in p s\<close> is Python's \<open>p in s\<close> for two
  strings, \<open>py_strip\<close> is \<open>str.strip()\<close> with no argument and \<open>join\<close> is
  \<open>sep.join(parts)\<close>.
\<close>

definition ascii_upper :: "char \<Rightarrow> char" where
  "ascii_upper c =
     (let n = (of_char c :: nat) in
      if 97 \<le> n \<and> n \<le> 122
      then (case c of Char b0 b1 b2 b3 b4 b5 b6 b7 \<Rightarrow> Char b0 b1 b2 b3 b4 False b6 b7)
      else c)"

definition upper :: "string \<Rightarrow> string" where
  "upper s = map ascii_upper s"

fun starts_with :: "string \<Rightarrow> string \<Rightarrow> bool" where
  "starts_with [] s = True"
| "starts_with (p # ps) [] = False"
| "starts_with (p # ps) (c # cs) = (p = c \<and> starts_with ps cs)"

fun py_in :: "string \<Rightarrow> string \<Rightarrow> bool" where
  "py_in p [] = (p = [])"
| "py_in p (c # cs) = (starts_with p (c # cs) \<or> py_in p cs)"

definition is_space :: "char \<Rightarrow> bool" where
  "is_space c =
     (let n = (of_char c :: nat) in (9 \<le> n \<and> n \<le> 13) \<or> (28 \<le> n \<and> n \<le> 32))"

definition py_strip :: "string \<Rightarrow> string" where
  "py_strip s = rev (dropWhile is_space (rev (dropWhile is_space s)))"

fun join :: "string \<Rightarrow> string list \<Rightarrow> string" where
  "join sep [] = []"
| "join sep [x] = x"
| "join sep (x # y # ys) = x @ sep @ join sep (y # ys)"

section \<open>The type translator\<close>

text \<open>
  \<open>type_mapping\<close> is the dictionary of \<open>convert_sqlite_type_to_postgres\<close> in
  insertion order, the order in which Python iterates over \<open>type_mapping.items()\<close>.
\<close>

definition type_mapping :: "(string \<times> string) list" where
  "type_mapping =
     [(''INTEGER'', ''INTEGER''),
      (''TEXT'', ''TEXT''),
      (''REAL'', ''REAL''),
      (''BLOB'', ''BYTEA''),
      (''NUMERIC'', ''NUMERIC''),
      (''BOOLEAN'', ''BOOLEAN''),
      (''DATE'', ''DATE''),
      (''DATETIME'', ''TIMESTAMP''),
      (''TIME'', ''TIME''),
      (''VARCHAR'', ''VARCHAR(255)''),
      (''CHAR'', ''TEXT'')]"

text \<open>The loop \<open>for sqlite_key, postgres_type in type_mapping.items()\<close> with its
  fallback \<open>return 'TEXT'\<close>.\<close>

fun first_match :: "(string \<times> string) list \<Rightarrow> string \<Rightarrow> string" where
  "first_match [] s = ''TEXT''"
| "first_match ((sqlite_key, postgres_type) # rest) s =
     (if py_in sqlite_key s then postgres_type else first_match rest s)"

definition convert_sqlite_type_to_postgres :: "string \<Rightarrow> string" where
  "convert_sqlite_type_to_postgres sqlite_type0 =
     (let sqlite_type = upper sqlite_type0 in
      if py_in ''VARCHAR'' sqlite_type then sqlite_type
      else if py_in ''CHAR'' sqlite_type then ''TEXT''
      else first_match type_mapping sqlite_type)"

section \<open>The table materializer\<close>

text \<open>
  One row of \<open>PRAGMA table_info(table)\<close>, read by \<open>create_postgres_table\<close> through
  the keys \<open>name\<close>, \<open>type\<close>, \<open>notnull\<close>, \<open>dflt_value\<close> and \<open>pk\<close>. The flags
  are SQLite integers, tested for truth as Python does (non-zero); the default is
  \<open>None\<close> or the text of the default expression.
\<close>

record column =
  col_cid :: nat
  col_name :: string
  col_type :: string
  col_notnull :: int
  col_dflt_value :: "string option"
  col_pk :: int

definition nullable_fields :: "string list" where
  "nullable_fields =
     [''last_name'', ''first_name'', ''date_joined'', ''site_name'',
      ''hostname'', ''root_page_id'', ''is_default_site'', ''seo_title'',
      ''search_description'', ''go_live_at'', ''expire_at'', ''expired'']"

text \<open>The local \<open>not_null\<close> of the loop body.\<close>

definition not_null :: "column \<Rightarrow> string" where
  "not_null c =
     (if col_notnull c \<noteq> 0 \<and> col_name c \<notin> set nullable_fields
      then ''NOT NULL'' else [])"

text \<open>The local \<open>default_val\<close>: \<open>None\<close> and the empty string are both false.\<close>

definition default_val :: "column \<Rightarrow> string" where
  "default_val c =
     (case col_dflt_value c of
        None \<Rightarrow> []
      | Some d \<Rightarrow> (if d \<noteq> [] then ''DEFAULT '' @ d else []))"

definition column_def :: "column \<Rightarrow> string" where
  "column_def c =
     py_strip (col_name c @ '' '' @ convert_sqlite_type_to_postgres (col_type c) @ '' ''
               @ not_null c @ '' '' @ default_val c)"

definition primary_keys :: "column list \<Rightarrow> string list" where
  "primary_keys schema = map col_name (filter (\<lambda>c. col_pk c \<noteq> 0) schema)"

definition pk_constraint :: "column list \<Rightarrow> string" where
  "pk_constraint schema =
     (if primary_keys schema \<noteq> []
      then '', PRIMARY KEY ('' @ join '', '' (primary_keys schema) @ '')''
      else [])"

definition newline :: string where
  "newline = [CHR 0x0A]"

text \<open>The statement text \<open>create_sql\<close>, with the line breaks and indentation of the
  triple-quoted f-string.\<close>

definition create_sql :: "string \<Rightarrow> column list \<Rightarrow> string" where
  "create_sql table_name schema =
     newline @ ''        DROP TABLE IF EXISTS '' @ table_name @ '' CASCADE;''
     @ newline @ ''        CREATE TABLE '' @ table_name @ '' (''
     @ newline @ ''            '' @ join '', '' (map column_def schema) @ pk_constraint schema
     @ newline @ ''        );''
     @ newline @ ''        ''"

section \<open>Rows and values\<close>

text \<open>
  A value read from a SQLite row by the \<open>sqlite3\<close> module: \<open>None\<close>, an \<open>int\<close>,
  a \<open>float\<close> (kept as its 64-bit pattern, never inspected), a \<open>str\<close> or \<open>bytes\<close>.
  Only a \<open>str\<close> can be equal to \<open>''\<close>.
\<close>

datatype val = VNull | VInt int | VReal "64 word" | VText string | VBlob string

type_synonym row = "val list"

text \<open>\<open>None if val == '' else val\<close>, and the tuple built from a row
  (\<open>migrate_sqlite_to_neon.py\<close>).\<close>

definition null_if_empty :: "val \<Rightarrow> val" where
  "null_if_empty v = (if v = VText [] then VNull else v)"

definition data_tuple :: "row \<Rightarrow> row" where
  "data_tuple r = map null_if_empty r"




section \<open>The source database\<close>

text \<open>
  An index of the source: the five fields of its \<open>PRAGMA index_list\<close> row in SQLite's
  column order (\<open>seq\<close>, \<open>name\<close>, \<open>unique\<close>, \<open>origin\<close>, \<open>partial\<close>; the script reads
  them by position, \<open>index[1]\<close> and \<open>index[2]\<close>), and the third field of each of its
  \<open>PRAGMA index_info\<close> rows (the column name, \<open>None\<close> for an expression). The origin is
  \<open>c\<close> for an index made by CREATE INDEX, \<open>u\<close> or \<open>pk\<close> for one SQLite generated
  for a UNIQUE or PRIMARY KEY constraint.
\<close>

record sqlite_index =
  idx_seq :: nat
  idx_name :: string
  idx_unique :: int
  idx_origin :: string
  idx_partial :: int
  idx_info :: "string option list"

record sqlite_table =
  tbl_name :: string
  tbl_schema :: "column list"
  tbl_rows :: "row list"
  tbl_indexes :: "sqlite_index list"

text \<open>The \<open>sqlite_master\<close> rows of type \<open>table\<close>, in catalog order.\<close>

type_synonym sqlite_db = "sqlite_table list"

definition find_table :: "sqlite_db \<Rightarrow> string \<Rightarrow> sqlite_table option" where
  "find_table db table_name = find (\<lambda>t. tbl_name t = table_name) db"

text \<open>\<open>PRAGMA table_info\<close> and \<open>PRAGMA index_list\<close> give no rows for an unknown
  table; \<open>SELECT * FROM\<close> raises.\<close>

definition get_table_schema :: "sqlite_db \<Rightarrow> string \<Rightarrow> column list" where
  "get_table_schema db table_name =
     (case find_table db table_name of None \<Rightarrow> [] | Some t \<Rightarrow> tbl_schema t)"

definition index_list :: "sqlite_db \<Rightarrow> string \<Rightarrow> sqlite_index list" where
  "index_list db table_name =
     (case find_table db table_name of None \<Rightarrow> [] | Some t \<Rightarrow> tbl_indexes t)"

definition select_all :: "sqlite_db \<Rightarrow> string \<Rightarrow> string + (string list \<times> row list)" where
  "select_all db table_name =
     (case find_table db table_name of
        None \<Rightarrow> Inl (''no such table: '' @ table_name)
      | Some t \<Rightarrow> Inr (map col_name (tbl_schema t), tbl_rows t))"

section \<open>The target server\<close>

text \<open>
  What the script can observe of the target: its tables (column names, the statement that
  made them, rows in insertion order), its indexes by name, and the serial columns with
  the last value of the sequence each owns. All three are association lists.
\<close>

record pg_table =
  pg_columns :: "string list"
  pg_sql :: string
  pg_rows :: "row list"

record pg_index =
  pgi_table :: string
  pgi_columns :: "string list"

record pg_db =
  pg_tables :: "(string \<times> pg_table) list"
  pg_indexes :: "(string \<times> pg_index) list"
  pg_sequences :: "((string \<times> string) \<times> int) list"

text \<open>
  \<open>cursor.execute(sql, params)\<close> on the target may raise for reasons the script does not
  see (constraints, types, permissions). The server's verdict is a parameter: given the
  database, the statement text and its parameters it is \<open>None\<close> or the error raised.
  A statement that raises changes nothing.
\<close>

type_synonym verdict = "pg_db \<Rightarrow> string \<Rightarrow> row \<Rightarrow> string option"

definition squote :: string where
  "squote = [CHR 0x27]"

definition no_relation :: "string \<Rightarrow> string" where
  "no_relation table_name = ''relation '' @ table_name @ '' does not exist''"

text \<open>\<open>DROP TABLE IF EXISTS t CASCADE; CREATE TABLE t (...)\<close>: the table is replaced by
  an empty one; the indexes and sequences of the dropped table go with it.\<close>

definition exec_create ::
  "verdict \<Rightarrow> string \<Rightarrow> string list \<Rightarrow> string \<Rightarrow> pg_db \<Rightarrow> string + pg_db" where
  "exec_create fails table_name cols sql db =
     (case fails db sql [] of
        Some e \<Rightarrow> Inl e
      | None \<Rightarrow> Inr (db\<lparr>
          pg_tables := AList.update table_name
             \<lparr>pg_columns = cols, pg_sql = sql, pg_rows = []\<rparr> (pg_tables db),
          pg_indexes := filter (\<lambda>(n, i). pgi_table i \<noteq> table_name) (pg_indexes db),
          pg_sequences := filter (\<lambda>((t, c), v). t \<noteq> table_name) (pg_sequences db)\<rparr>))"

text \<open>\<open>INSERT INTO t (columns) VALUES (%s, ...)\<close> with a parameter tuple: the tuple
  becomes the last row of the table.\<close>

definition exec_insert ::
  "verdict \<Rightarrow> string \<Rightarrow> string \<Rightarrow> row \<Rightarrow> pg_db \<Rightarrow> string + pg_db" where
  "exec_insert fails table_name sql params db =
     (case map_of (pg_tables db) table_name of
        None \<Rightarrow> Inl (no_relation table_name)
      | Some t \<Rightarrow>
          (case fails db sql params of
             Some e \<Rightarrow> Inl e
           | None \<Rightarrow> Inr (db\<lparr>pg_tables :=
               AList.update table_name (t\<lparr>pg_rows := pg_rows t @ [params]\<rparr>) (pg_tables db)\<rparr>)))"

text \<open>\<open>CREATE INDEX IF NOT EXISTS name ON t (columns)\<close>: nothing happens when a
  relation of that name (an index or a table) exists already.\<close>

definition exec_create_index ::
  "verdict \<Rightarrow> string \<Rightarrow> string \<Rightarrow> string list \<Rightarrow> string \<Rightarrow> pg_db \<Rightarrow> string + pg_db" where
  "exec_create_index fails index_name table_name cols sql db =
     (case fails db sql [] of
        Some e \<Rightarrow> Inl e
      | None \<Rightarrow>
          (if index_name \<in> set (map fst (pg_indexes db)) \<or> index_name \<in> set (map fst (pg_tables db))
           then Inr db
           else (case map_of (pg_tables db) table_name of
                   None \<Rightarrow> Inl (no_relation table_name)
                 | Some t \<Rightarrow> Inr (db\<lparr>pg_indexes := pg_indexes db @
                     [(index_name, \<lparr>pgi_table = table_name, pgi_columns = cols\<rparr>)]\<rparr>))))"

text \<open>The catalog query of \<open>reset_sequences\<close>: the (table, column) pairs whose default
  is \<open>nextval\<close> of a sequence.\<close>

definition exec_select_sequences ::
  "verdict \<Rightarrow> string \<Rightarrow> pg_db \<Rightarrow> string + (string \<times> string) list" where
  "exec_select_sequences fails sql db =
     (case fails db sql [] of
        Some e \<Rightarrow> Inl e
      | None \<Rightarrow> Inr (map fst (pg_sequences db)))"

fun position :: "string \<Rightarrow> string list \<Rightarrow> nat option" where
  "position c [] = None"
| "position c (x # xs) =
     (if x = c then Some 0 else (case position c xs of None \<Rightarrow> None | Some i \<Rightarrow> Some (Suc i)))"

text \<open>The integers stored in one column, nulls left out as \<open>MAX\<close> does; \<open>None\<close>
  when the column holds anything else.\<close>

fun ints_of :: "val list \<Rightarrow> int list option" where
  "ints_of [] = Some []"
| "ints_of (VNull # vs) = ints_of vs"
| "ints_of (VInt n # vs) = (case ints_of vs of None \<Rightarrow> None | Some ns \<Rightarrow> Some (n # ns))"
| "ints_of (v # vs) = None"

definition cell :: "row \<Rightarrow> nat \<Rightarrow> val" where
  "cell r i = (if i < length r then r ! i else VNull)"

definition column_ints :: "pg_table \<Rightarrow> string \<Rightarrow> int list option" where
  "column_ints t c =
     (case position c (pg_columns t) of
        None \<Rightarrow> None
      | Some i \<Rightarrow> ints_of (map (\<lambda>r. cell r i) (pg_rows t)))"

text \<open>\<open>COALESCE(MAX(column), 1)\<close>.\<close>

fun coalesce_max :: "int list \<Rightarrow> int" where
  "coalesce_max [] = 1"
| "coalesce_max [n] = n"
| "coalesce_max (n # m # ns) = max n (coalesce_max (m # ns))"

text \<open>\<open>SELECT setval(pg_get_serial_sequence('t', 'c'), COALESCE(MAX(c), 1)) FROM t\<close>:
  the sequence owned by the column gets the value; a column that owns none is left
  alone.\<close>

definition exec_setval ::
  "verdict \<Rightarrow> string \<Rightarrow> string \<Rightarrow> string \<Rightarrow> pg_db \<Rightarrow> string + pg_db" where
  "exec_setval fails table column sql db =
     (case fails db sql [] of
        Some e \<Rightarrow> Inl e
      | None \<Rightarrow>
          (case map_of (pg_tables db) table of
             None \<Rightarrow> Inl (no_relation table)
           | Some t \<Rightarrow>
               (case column_ints t column of
                  None \<Rightarrow> Inl (''column '' @ column @ '' has no integer maximum'')
                | Some ns \<Rightarrow>
                    (if (table, column) \<in> set (map fst (pg_sequences db))
                     then Inr (db\<lparr>pg_sequences :=
                            AList.update (table, column) (coalesce_max ns) (pg_sequences db)\<rparr>)
                     else Inr db))))"

text \<open>\<open>SELECT COUNT(*) FROM t\<close>.\<close>

definition exec_count :: "verdict \<Rightarrow> string \<Rightarrow> string \<Rightarrow> pg_db \<Rightarrow> string + nat" where
  "exec_count fails table_name sql db =
     (case fails db sql [] of
        Some e \<Rightarrow> Inl e
      | None \<Rightarrow>
          (case map_of (pg_tables db) table_name of
             None \<Rightarrow> Inl (no_relation table_name)
           | Some t \<Rightarrow> Inr (length (pg_rows t))))"

section \<open>The log and the migrator's state\<close>


datatype event =
    Connected_sqlite
  | Connected_neon
  | Connection_error string
  | Found_tables "string list"
  | Created_table string
  | Create_table_error string string
  | No_data string
  | Row_error string string
  | Migrated_rows nat string
  | Created_index string
  | Index_error string string
  | Reset_sequence string string
  | Sequence_error string string string
  | Starting_migration
  | Migrating_table string
  | Migration_completed
  | Migration_failed string
  | Verifying
  | Count_match string nat
  | Count_mismatch string nat nat
  | Verification_completed
  | Verification_failed string
  | Process_completed
  | Process_failed string


text \<open>\<open>self.sqlite_conn\<close> and \<open>self.neon_conn\<close>: \<open>None\<close>, an open connection or a
  closed one.\<close>

datatype conn = Not_connected | Open_conn | Closed_conn

text \<open>
  The state a run works on: what the target server holds committed, what the script's
  target connection sees (the committed state and its own uncommitted statements, since
  \<open>autocommit\<close> is off), the two connections and the log.
\<close>

record world =
  committed :: pg_db
  session :: pg_db
  sqlite_conn :: conn
  neon_conn :: conn
  log :: "event list"

text \<open>
  What a run is given: the source database behind \<open>sqlite_path\<close>, whether each
  \<open>connect\<close> call raises (it may depend on when it is made), and the target server's
  verdict on each statement.
\<close>

record env =
  source :: sqlite_db
  sqlite_connect_error :: "world \<Rightarrow> string option"
  neon_connect_error :: "world \<Rightarrow> string option"
  fails :: verdict

definition add_log :: "event \<Rightarrow> world \<Rightarrow> world" where
  "add_log ev w = w\<lparr>log := log w @ [ev]\<rparr>"

definition commit :: "world \<Rightarrow> world" where
  "commit w = w\<lparr>committed := session w\<rparr>"

definition rollback :: "world \<Rightarrow> world" where
  "rollback w = w\<lparr>session := committed w\<rparr>"

text \<open>The \<open>finally\<close> blocks: \<open>if self.sqlite_conn: self.sqlite_conn.close()\<close> and the
  same for the target, whose uncommitted work is lost with the connection.\<close>

definition close_connections :: "world \<Rightarrow> world" where
  "close_connections w =
     (let w1 = (if sqlite_conn w \<noteq> Not_connected then w\<lparr>sqlite_conn := Closed_conn\<rparr> else w)
      in if neon_conn w1 \<noteq> Not_connected
         then w1\<lparr>neon_conn := Closed_conn, session := committed w1\<rparr>
         else w1)"

definition connect_databases :: "env \<Rightarrow> world \<Rightarrow> (string + unit) \<times> world" where
  "connect_databases E w =
     (case sqlite_connect_error E w of
        Some e \<Rightarrow> (Inl e, add_log (Connection_error e) w)
      | None \<Rightarrow>
          (let w1 = add_log Connected_sqlite (w\<lparr>sqlite_conn := Open_conn\<rparr>) in
           case neon_connect_error E w1 of
             Some e \<Rightarrow> (Inl e, add_log (Connection_error e) w1)
           | None \<Rightarrow>
               (Inr (), add_log Connected_neon
                          (w1\<lparr>neon_conn := Open_conn, session := committed w1\<rparr>))))"

definition get_sqlite_tables :: "env \<Rightarrow> world \<Rightarrow> string list \<times> world" where
  "get_sqlite_tables E w =
     (let tables = filter (\<lambda>table. \<not> starts_with ''sqlite_'' table) (map tbl_name (source E))
      in (tables, add_log (Found_tables tables) w))"

definition create_postgres_table ::
  "env \<Rightarrow> string \<Rightarrow> column list \<Rightarrow> world \<Rightarrow> (string + unit) \<times> world" where
  "create_postgres_table E table_name schema w =
     (case exec_create (fails E) table_name (map col_name schema) (create_sql table_name schema)
             (session w) of
        Inr db \<Rightarrow> (Inr (), add_log (Created_table table_name) (w\<lparr>session := db\<rparr>))
      | Inl e \<Rightarrow> (Inl e, add_log (Create_table_error table_name e) w))"

definition insert_sql :: "string \<Rightarrow> string list \<Rightarrow> string" where
  "insert_sql table_name columns =
     ''INSERT INTO '' @ table_name @ '' ('' @ join '', '' columns @ '') VALUES (''
     @ join '', '' (replicate (length columns) ''%s'') @ '')''"

text \<open>The loop \<open>for row in rows\<close> of \<open>migrate_table_data\<close>, carrying
  \<open>migrated_count\<close>.\<close>

fun insert_rows :: "env \<Rightarrow> string \<Rightarrow> string \<Rightarrow> row list \<Rightarrow> nat \<Rightarrow> world \<Rightarrow> nat \<times> world" where
  "insert_rows E table_name sql [] migrated_count w = (migrated_count, w)"
| "insert_rows E table_name sql (r # rows) migrated_count w =
     (case exec_insert (fails E) table_name sql (data_tuple r) (session w) of
        Inr db \<Rightarrow> insert_rows E table_name sql rows (migrated_count + 1) (w\<lparr>session := db\<rparr>)
      | Inl e \<Rightarrow> insert_rows E table_name sql rows migrated_count
                  (add_log (Row_error table_name e) w))"

definition migrate_table_data :: "env \<Rightarrow> string \<Rightarrow> world \<Rightarrow> (string + unit) \<times> world" where
  "migrate_table_data E table_name w =
     (case select_all (source E) table_name of
        Inl e \<Rightarrow> (Inl e, w)
      | Inr (columns, rows) \<Rightarrow>
          (if rows = [] then (Inr (), add_log (No_data table_name) w)
           else (case insert_rows E table_name (insert_sql table_name columns) rows 0 w of
                   (migrated_count, w') \<Rightarrow>
                     (Inr (), add_log (Migrated_rows migrated_count table_name) w'))))"

text \<open>\<open>', '.join(index_columns)\<close> raises \<open>TypeError\<close> when a column name is
  \<open>None\<close>.\<close>

fun all_names :: "string option list \<Rightarrow> string list option" where
  "all_names [] = Some []"
| "all_names (None # cs) = None"
| "all_names (Some c # cs) = (case all_names cs of None \<Rightarrow> None | Some ns \<Rightarrow> Some (c # ns))"

definition index_sql :: "string \<Rightarrow> string \<Rightarrow> string list \<Rightarrow> string" where
  "index_sql index_name table_name index_columns =
     ''CREATE INDEX IF NOT EXISTS '' @ index_name @ '' ON '' @ table_name
     @ '' ('' @ join '', '' index_columns @ '')''"

text \<open>The loop \<open>for index in indexes\<close> of \<open>create_indexes\<close>; \<open>index[2]\<close> is the
  third field of the \<open>PRAGMA index_list\<close> row.\<close>

fun create_indexes_loop ::
  "env \<Rightarrow> string \<Rightarrow> sqlite_index list \<Rightarrow> world \<Rightarrow> (string + unit) \<times> world" where
  "create_indexes_loop E table_name [] w = (Inr (), w)"
| "create_indexes_loop E table_name (index # indexes) w =
     (if idx_unique index \<noteq> 0 then create_indexes_loop E table_name indexes w
      else (case all_names (idx_info index) of
              None \<Rightarrow> (Inl ''sequence item: expected str instance, NoneType found'', w)
            | Some index_columns \<Rightarrow>
                (case exec_create_index (fails E) (idx_name index) table_name index_columns
                        (index_sql (idx_name index) table_name index_columns) (session w) of
                   Inr db \<Rightarrow> create_indexes_loop E table_name indexes
                              (add_log (Created_index (idx_name index)) (w\<lparr>session := db\<rparr>))
                 | Inl e \<Rightarrow> create_indexes_loop E table_name indexes
                              (add_log (Index_error (idx_name index) e) w))))"

definition create_indexes :: "env \<Rightarrow> string \<Rightarrow> world \<Rightarrow> (string + unit) \<times> world" where
  "create_indexes E table_name w =
     create_indexes_loop E table_name (index_list (source E) table_name) w"

definition sequences_sql :: string where
  "sequences_sql =
     newline @ ''            SELECT table_name, column_name ''
     @ newline @ ''            FROM information_schema.columns ''
     @ newline @ ''            WHERE table_schema = '' @ squote @ ''public'' @ squote @ '' ''
     @ newline @ ''            AND column_default LIKE '' @ squote @ ''nextval%'' @ squote
     @ newline @ ''        ''"

definition setval_sql :: "string \<Rightarrow> string \<Rightarrow> string" where
  "setval_sql table column =
     newline @ ''                    SELECT setval(pg_get_serial_sequence(''
       @ squote @ table @ squote @ '', '' @ squote @ column @ squote @ ''), ''
     @ newline @ ''                                  COALESCE(MAX('' @ column @ ''), 1)) ''
     @ newline @ ''                    FROM '' @ table
     @ newline @ ''                ''"

text \<open>The loop \<open>for table, column in sequences\<close> of \<open>reset_sequences\<close>.\<close>

fun reset_loop :: "env \<Rightarrow> (string \<times> string) list \<Rightarrow> world \<Rightarrow> world" where
  "reset_loop E [] w = w"
| "reset_loop E ((table, column) # sequences) w =
     (case exec_setval (fails E) table column (setval_sql table column) (session w) of
        Inr db \<Rightarrow> reset_loop E sequences (add_log (Reset_sequence table column) (w\<lparr>session := db\<rparr>))
      | Inl e \<Rightarrow> reset_loop E sequences (add_log (Sequence_error table column e) w))"

definition reset_sequences :: "env \<Rightarrow> world \<Rightarrow> (string + unit) \<times> world" where
  "reset_sequences E w =
     (case exec_select_sequences (fails E) sequences_sql (session w) of
        Inl e \<Rightarrow> (Inl e, w)
      | Inr sequences \<Rightarrow> (Inr (), reset_loop E sequences w))"

text \<open>The loop \<open>for table_name in tables\<close> of \<open>migrate\<close>.\<close>

fun migrate_tables :: "env \<Rightarrow> string list \<Rightarrow> world \<Rightarrow> (string + unit) \<times> world" where
  "migrate_tables E [] w = (Inr (), w)"
| "migrate_tables E (table_name # tables) w =
     (let w0 = add_log (Migrating_table table_name) w;
          schema = get_table_schema (source E) table_name in
      case create_postgres_table E table_name schema w0 of
        (Inl e, w1) \<Rightarrow> (Inl e, w1)
      | (Inr u, w1) \<Rightarrow>
          (case migrate_table_data E table_name w1 of
             (Inl e, w2) \<Rightarrow> (Inl e, w2)
           | (Inr u, w2) \<Rightarrow>
               (case create_indexes E table_name w2 of
                  (Inl e, w3) \<Rightarrow> (Inl e, w3)
                | (Inr u, w3) \<Rightarrow> migrate_tables E tables w3)))"

text \<open>The \<open>try\<close> block of \<open>migrate\<close>.\<close>

definition migrate_body :: "env \<Rightarrow> world \<Rightarrow> (string + unit) \<times> world" where
  "migrate_body E w =
     (case connect_databases E w of
        (Inl e, w1) \<Rightarrow> (Inl e, w1)
      | (Inr u, w1) \<Rightarrow>
          (case get_sqlite_tables E w1 of
             (tables, w2) \<Rightarrow>
               (case migrate_tables E tables w2 of
                  (Inl e, w3) \<Rightarrow> (Inl e, w3)
                | (Inr u, w3) \<Rightarrow>
                    (case reset_sequences E w3 of
                       (Inl e, w4) \<Rightarrow> (Inl e, w4)
                     | (Inr u, w4) \<Rightarrow> (Inr (), add_log Migration_completed (commit w4))))))"

text \<open>\<open>migrate\<close>: the \<open>try\<close> block, the \<open>except\<close> clause (log, roll back when there
  is a target connection, raise again) and the \<open>finally\<close> clause.\<close>

definition migrate :: "env \<Rightarrow> world \<Rightarrow> (string + unit) \<times> world" where
  "migrate E w =
     (case migrate_body E (add_log Starting_migration w) of
        (Inr u, w1) \<Rightarrow> (Inr (), close_connections w1)
      | (Inl e, w1) \<Rightarrow>
          (let w2 = add_log (Migration_failed e) w1;
               w3 = (if neon_conn w2 \<noteq> Not_connected then rollback w2 else w2)
           in (Inl e, close_connections w3)))"

definition count_sql :: "string \<Rightarrow> string" where
  "count_sql table_name = ''SELECT COUNT(*) FROM '' @ table_name"

text \<open>The loop \<open>for table_name in tables\<close> of \<open>verify_migration\<close>.\<close>

fun verify_tables :: "env \<Rightarrow> string list \<Rightarrow> world \<Rightarrow> (string + unit) \<times> world" where
  "verify_tables E [] w = (Inr (), w)"
| "verify_tables E (table_name # tables) w =
     (case select_all (source E) table_name of
        Inl e \<Rightarrow> (Inl e, w)
      | Inr (columns, rows) \<Rightarrow>
          (let sqlite_count = length rows in
           case exec_count (fails E) table_name (count_sql table_name) (session w) of
             Inl e \<Rightarrow> (Inl e, w)
           | Inr postgres_count \<Rightarrow>
               (if sqlite_count = postgres_count
                then verify_tables E tables (add_log (Count_match table_name sqlite_count) w)
                else verify_tables E tables
                       (add_log (Count_mismatch table_name sqlite_count postgres_count) w))))"

text \<open>The \<open>try\<close> block of \<open>verify_migration\<close>.\<close>

definition verify_body :: "env \<Rightarrow> world \<Rightarrow> (string + unit) \<times> world" where
  "verify_body E w =
     (case connect_databases E w of
        (Inl e, w1) \<Rightarrow> (Inl e, w1)
      | (Inr u, w1) \<Rightarrow>
          (case get_sqlite_tables E w1 of
             (tables, w2) \<Rightarrow>
               (case verify_tables E tables w2 of
                  (Inl e, w3) \<Rightarrow> (Inl e, w3)
                | (Inr u, w3) \<Rightarrow> (Inr (), add_log Verification_completed w3))))"

text \<open>\<open>verify_migration\<close>: \<open>except Exception\<close> logs and does not raise again.\<close>

definition verify_migration :: "env \<Rightarrow> world \<Rightarrow> (string + unit) \<times> world" where
  "verify_migration E w =
     (case verify_body E (add_log Verifying w) of
        (Inr u, w1) \<Rightarrow> (Inr (), close_connections w1)
      | (Inl e, w1) \<Rightarrow> (Inr (), close_connections (add_log (Verification_failed e) w1)))"

text \<open>\<open>main\<close> after argument parsing: the exit status of the process and the state
  it leaves. \<open>sys.exit(1)\<close> is the only exit call; a normal return is status 0.\<close>

definition main :: "env \<Rightarrow> bool \<Rightarrow> world \<Rightarrow> nat \<times> world" where
  "main E verify w =
     (case migrate E w of
        (Inl e, w1) \<Rightarrow> (1, add_log (Process_failed e) w1)
      | (Inr u, w1) \<Rightarrow>
          (if verify
           then (case verify_migration E w1 of
                   (Inl e, w2) \<Rightarrow> (1, add_log (Process_failed e) w2)
                 | (Inr u, w2) \<Rightarrow> (0, add_log Process_completed w2))
           else (0, add_log Process_completed w1)))"

text \<open>A new \<open>SQLiteToNeonMigrator\<close> against a target holding \<open>db\<close>.\<close>

definition initial_world :: "pg_db \<Rightarrow> world" where
  "initial_world db =
     \<lparr>committed = db, session = db, sqlite_conn = Not_connected, neon_conn = Not_connected,
      log = []\<rparr>"

section \<open>A small source, a target and four servers\<close>

text \<open>
  The source of the specification's scenarios: \<open>users(id INTEGER PK, name TEXT, email
  TEXT)\<close> with rows \<open>(1, 'a', '')\<close> and \<open>(2, 'b', 'c@x.com')\<close>, and \<open>orders\<close> with four
  rows, next to SQLite's own \<open>sqlite_sequence\<close>. \<open>users\<close> has the index SQLite generated
  for a UNIQUE constraint and an index made by CREATE INDEX; \<open>orders\<close> has a unique index
  made by CREATE UNIQUE INDEX.
\<close>

definition users_table :: sqlite_table where
  "users_table =
     \<lparr>tbl_name = ''users'',
      tbl_schema =
        [\<lparr>col_cid = 0, col_name = ''id'', col_type = ''INTEGER'', col_notnull = 1,
          col_dflt_value = None, col_pk = 1\<rparr>,
         \<lparr>col_cid = 1, col_name = ''name'', col_type = ''TEXT'', col_notnull = 1,
          col_dflt_value = None, col_pk = 0\<rparr>,
         \<lparr>col_cid = 2, col_name = ''email'', col_type = ''TEXT'', col_notnull = 0,
          col_dflt_value = None, col_pk = 0\<rparr>],
      tbl_rows =
        [[VInt 1, VText ''a'', VText []],
         [VInt 2, VText ''b'', VText ''c@x.com'']],
      tbl_indexes =
        [\<lparr>idx_seq = 0, idx_name = ''users_name_idx'', idx_unique = 0, idx_origin = ''c'',
          idx_partial = 0, idx_info = [Some ''name'']\<rparr>,
         \<lparr>idx_seq = 1, idx_name = ''sqlite_autoindex_users_1'', idx_unique = 1,
          idx_origin = ''u'', idx_partial = 0, idx_info = [Some ''email'']\<rparr>]\<rparr>"

definition orders_table :: sqlite_table where
  "orders_table =
     \<lparr>tbl_name = ''orders'',
      tbl_schema =
        [\<lparr>col_cid = 0, col_name = ''id'', col_type = ''INTEGER'', col_notnull = 1,
          col_dflt_value = None, col_pk = 1\<rparr>,
         \<lparr>col_cid = 1, col_name = ''user_id'', col_type = ''INTEGER'', col_notnull = 1,
          col_dflt_value = None, col_pk = 0\<rparr>],
      tbl_rows =
        [[VInt 1, VInt 1], [VInt 2, VInt 1], [VInt 3, VInt 99], [VInt 4, VInt 2]],
      tbl_indexes =
        [\<lparr>idx_seq = 0, idx_name = ''orders_ref_idx'', idx_unique = 1, idx_origin = ''c'',
          idx_partial = 0, idx_info = [Some ''id'', Some ''user_id'']\<rparr>]\<rparr>"

definition system_table :: sqlite_table where
  "system_table =
     \<lparr>tbl_name = ''sqlite_sequence'',
      tbl_schema =
        [\<lparr>col_cid = 0, col_name = ''name'', col_type = [], col_notnull = 0,
          col_dflt_value = None, col_pk = 0\<rparr>,
         \<lparr>col_cid = 1, col_name = ''seq'', col_type = [], col_notnull = 0,
          col_dflt_value = None, col_pk = 0\<rparr>],
      tbl_rows = [[VText ''orders'', VInt 4]],
      tbl_indexes = []\<rparr>"

definition shop_source :: sqlite_db where
  "shop_source = [users_table, system_table, orders_table]"

text \<open>A target that already holds a table \<open>audit\<close> with a serial column \<open>id\<close> whose
  sequence stands at 1 while the column holds 5 and 7.\<close>

definition audit_target :: pg_db where
  "audit_target =
     \<lparr>pg_tables =
        [(''audit'', \<lparr>pg_columns = [''id'', ''note''], pg_sql = [],
            pg_rows = [[VInt 5, VText ''x''], [VInt 7, VNull]]\<rparr>)],
      pg_indexes = [],
      pg_sequences = [((''audit'', ''id''), 1)]\<rparr>"

text \<open>A server that accepts everything; one that refuses the third row of \<open>orders\<close>
  (user 99 does not exist); one that refuses every row; one that refuses the statement
  creating \<open>orders\<close>.\<close>

definition accepts_all :: verdict where
  "accepts_all db sql params = None"


definition refuses_every_row :: verdict where
  "refuses_every_row db sql params =
     (if params \<noteq> [] then Some ''constraint violation'' else None)"

definition refuses_orders_table :: verdict where
  "refuses_orders_table db sql params =
     (if sql = create_sql ''orders'' (tbl_schema orders_table)
      then Some ''permission denied'' else None)"

definition shop_env :: "verdict \<Rightarrow> env" where
  "shop_env v =
     \<lparr>source = shop_source,
      sqlite_connect_error = (\<lambda>w. None),
      neon_connect_error = (\<lambda>w. None),
      fails = v\<rparr>"





section \<open>Notions used in the statements\<close>

text \<open>What every step of a run between connecting and committing keeps: the committed
  state of the target and the two connections; the log only grows.\<close>

definition run_step :: "world \<Rightarrow> world \<Rightarrow> bool" where
  "run_step w w' \<longleftrightarrow>
     committed w' = committed w \<and> sqlite_conn w' = sqlite_conn w \<and> neon_conn w' = neon_conn w
     \<and> prefix (log w) (log w')"




text \<open>The warnings of \<open>migrate_table_data\<close> for one table, as they stand in a log.\<close>

fun is_row_error :: "string \<Rightarrow> event \<Rightarrow> bool" where
  "is_row_error t (Row_error t' e) = (t' = t)"
| "is_row_error t ev = False"

definition row_errors :: "string \<Rightarrow> event list \<Rightarrow> event list" where
  "row_errors t evs = filter (is_row_error t) evs"

text \<open>A step that neither touches a table of the target nor logs a row of it as
  lost.\<close>

definition table_kept :: "string \<Rightarrow> world \<Rightarrow> world \<Rightarrow> bool" where
  "table_kept t w w' \<longleftrightarrow>
     map_of (pg_tables (session w')) t = map_of (pg_tables (session w)) t
     \<and> row_errors t (log w') = row_errors t (log w)"




section \<open>Properties of the type translator\<close>

text \<open>
  C4, the claim as stated: a declared type that contains VARCHAR (in any letter case) is
  returned verbatim. It is not: the function upper-cases its argument first and returns
  the upper-cased text.
\<close>

theorem convert_varchar_not_verbatim:
  "py_in ''VARCHAR'' (upper ''varchar(10)'')
   \<and> convert_sqlite_type_to_postgres ''varchar(10)'' = ''VARCHAR(10)''
   \<and> convert_sqlite_type_to_postgres ''varchar(10)'' \<noteq> ''varchar(10)''"
  by (simp add: convert_sqlite_type_to_postgres_def upper_def ascii_upper_def)

text \<open>
  The key \<open>DATE\<close> stands before \<open>DATETIME\<close> in the dictionary and is a substring of
  it, so the entry for \<open>DATETIME\<close> is never reached: a DATETIME column becomes DATE.
\<close>

lemma convert_datetime_is_date:
  "convert_sqlite_type_to_postgres ''DATETIME'' = ''DATE''
   \<and> convert_sqlite_type_to_postgres ''datetime'' = ''DATE''"
  by (simp add: convert_sqlite_type_to_postgres_def upper_def ascii_upper_def type_mapping_def)

text \<open>
  C4, amended: the declared type is upper-cased and matched by ordered substring rules.
  A type containing VARCHAR is returned upper-cased, otherwise unchanged; any other type
  containing CHAR becomes TEXT; then the first of INTEGER, TEXT, REAL, BLOB, NUMERIC,
  BOOLEAN, DATE, TIME that occurs decides (BLOB gives BYTEA, the others themselves);
  everything else is TEXT. Types containing DATETIME are left out of the statement.
\<close>

theorem convert_ordered_rules:
  assumes "\<not> py_in ''DATETIME'' (upper s)"
  shows "convert_sqlite_type_to_postgres s =
     (if py_in ''VARCHAR'' (upper s) then upper s
      else if py_in ''CHAR'' (upper s) then ''TEXT''
      else if py_in ''INTEGER'' (upper s) then ''INTEGER''
      else if py_in ''TEXT'' (upper s) then ''TEXT''
      else if py_in ''REAL'' (upper s) then ''REAL''
      else if py_in ''BLOB'' (upper s) then ''BYTEA''
      else if py_in ''NUMERIC'' (upper s) then ''NUMERIC''
      else if py_in ''BOOLEAN'' (upper s) then ''BOOLEAN''
      else if py_in ''DATE'' (upper s) then ''DATE''
      else if py_in ''TIME'' (upper s) then ''TIME''
      else ''TEXT'')"
  using assms
  by (simp add: convert_sqlite_type_to_postgres_def type_mapping_def)

theorem convert_ordered_rules_witness:
  "\<not> py_in ''DATETIME'' (upper ''char(10)'')
   \<and> convert_sqlite_type_to_postgres ''char(10)'' = ''TEXT''
   \<and> \<not> py_in ''DATETIME'' (upper ''Blob'')
   \<and> convert_sqlite_type_to_postgres ''Blob'' = ''BYTEA''"
proof -
  have h1: "\<not> py_in ''DATETIME'' (upper ''char(10)'')"
    by (simp add: upper_def ascii_upper_def)
  have h2: "\<not> py_in ''DATETIME'' (upper ''Blob'')"
    by (simp add: upper_def ascii_upper_def)
  show ?thesis
    using h1 h2 convert_ordered_rules [OF h1] convert_ordered_rules [OF h2]
    by (simp add: upper_def ascii_upper_def)
qed

section \<open>Properties of the string operations\<close>











section \<open>Properties of the table materializer\<close>



text \<open>
  C9: the exemption looks at the column name only. For every table name and every
  schema, a column whose name is one of the twelve listed names gets the same statement
  text whether or not the source marks it not-null: its NOT NULL clause is empty.
\<close>

theorem exemption_by_column_name_alone:
  assumes "col_name c \<in> set nullable_fields"
  shows "not_null c = []
       \<and> create_sql table_name (before @ c # after)
           = create_sql table_name (before @ c\<lparr>col_notnull := 0\<rparr> # after)
       \<and> length nullable_fields = 12"
proof -
  from assms have n: "not_null c = []"
    by (simp add: not_null_def)
  then have "column_def c = column_def (c\<lparr>col_notnull := 0\<rparr>)"
    by (simp add: column_def_def not_null_def default_val_def)
  then show ?thesis
    using n by (simp add: create_sql_def pk_constraint_def primary_keys_def nullable_fields_def)
qed

theorem exemption_by_column_name_alone_witness:
  "''expired'' \<in> set nullable_fields
   \<and> create_sql ''shop_coupon''
        ([\<lparr>col_cid = 0, col_name = ''id'', col_type = ''integer'', col_notnull = 1,
            col_dflt_value = None, col_pk = 1\<rparr>]
         @ \<lparr>col_cid = 1, col_name = ''expired'', col_type = ''bool'', col_notnull = 1,
            col_dflt_value = None, col_pk = 0\<rparr> # [])
      = create_sql ''shop_coupon''
        ([\<lparr>col_cid = 0, col_name = ''id'', col_type = ''integer'', col_notnull = 1,
            col_dflt_value = None, col_pk = 1\<rparr>]
         @ \<lparr>col_cid = 1, col_name = ''expired'', col_type = ''bool'', col_notnull = 0,
            col_dflt_value = None, col_pk = 0\<rparr> # [])
   \<and> column_def \<lparr>col_cid = 1, col_name = ''expired'', col_type = ''bool'', col_notnull = 1,
            col_dflt_value = None, col_pk = 0\<rparr> = ''expired TEXT''"
proof -
  have m: "''expired'' \<in> set nullable_fields"
    by (simp add: nullable_fields_def)
  have d: "column_def \<lparr>col_cid = 1, col_name = ''expired'', col_type = ''bool'', col_notnull = 1,
            col_dflt_value = None, col_pk = 0\<rparr> = ''expired TEXT''"
    by (simp add: column_def_def convert_sqlite_type_to_postgres_def upper_def ascii_upper_def
        type_mapping_def not_null_def nullable_fields_def default_val_def py_strip_def
        is_space_def)
  show ?thesis
    using m d exemption_by_column_name_alone [of "\<lparr>col_cid = 1, col_name = ''expired'',
        col_type = ''bool'', col_notnull = 1, col_dflt_value = None, col_pk = 0\<rparr>"
        "''shop_coupon''" "[\<lparr>col_cid = 0, col_name = ''id'', col_type = ''integer'',
        col_notnull = 1, col_dflt_value = None, col_pk = 1\<rparr>]" "[]"]
    by simp
qed

section \<open>Steps of a run\<close>

lemma committed_add_log [simp]: "committed (add_log ev w) = committed w"
  by (simp add: add_log_def)

lemma conns_add_log [simp]:
  "sqlite_conn (add_log ev w) = sqlite_conn w" "neon_conn (add_log ev w) = neon_conn w"
  by (simp_all add: add_log_def)

lemma session_add_log [simp]: "session (add_log ev w) = session w"
  by (simp add: add_log_def)

lemma log_add_log [simp]: "log (add_log ev w) = log w @ [ev]"
  by (simp add: add_log_def)

lemma run_step_refl [simp]: "run_step w w"
  by (simp add: run_step_def)

lemma run_step_trans: "run_step w w1 \<Longrightarrow> run_step w1 w2 \<Longrightarrow> run_step w w2"
  by (auto simp: run_step_def)

lemma run_step_add_log [simp]: "run_step w (add_log ev w)"
  by (simp add: run_step_def)

lemma run_step_session [simp]: "run_step w (w\<lparr>session := db\<rparr>)"
  by (simp add: run_step_def)

lemma run_step_log_session: "run_step w (add_log ev (w\<lparr>session := db\<rparr>))"
  by (simp add: run_step_def)

lemma create_postgres_table_step:
  "create_postgres_table E t schema w = (r, w') \<Longrightarrow> run_step w w'"
  by (auto simp: create_postgres_table_def run_step_log_session split: sum.splits)

lemma insert_rows_step:
  "insert_rows E t sql rows n w = (n', w') \<Longrightarrow> run_step w w'"
proof (induction rows arbitrary: n w)
  case Nil
  then show ?case by simp
next
  case (Cons r rows)
  show ?case
  proof (cases "exec_insert (fails E) t sql (data_tuple r) (session w)")
    case (Inl e)
    with Cons.prems have "run_step (add_log (Row_error t e) w) w'"
      by (auto intro: Cons.IH)
    then show ?thesis
      by (rule run_step_trans [OF run_step_add_log])
  next
    case (Inr db)
    with Cons.prems have "run_step (w\<lparr>session := db\<rparr>) w'"
      by (auto intro: Cons.IH)
    then show ?thesis
      by (rule run_step_trans [OF run_step_session])
  qed
qed

lemma migrate_table_data_step:
  "migrate_table_data E t w = (r, w') \<Longrightarrow> run_step w w'"
  by (auto simp: migrate_table_data_def split: sum.splits prod.splits if_splits
      dest!: insert_rows_step intro: run_step_trans [OF _ run_step_add_log])

lemma create_indexes_loop_step:
  "create_indexes_loop E t ixs w = (r, w') \<Longrightarrow> run_step w w'"
proof (induction ixs arbitrary: w)
  case Nil
  then show ?case by simp
next
  case (Cons ix ixs)
  then show ?case
    by (auto split: if_splits option.splits sum.splits
        dest!: Cons.IH intro: run_step_trans [OF run_step_log_session] run_step_trans [OF run_step_add_log])
qed

lemma create_indexes_step:
  "create_indexes E t w = (r, w') \<Longrightarrow> run_step w w'"
  by (simp add: create_indexes_def create_indexes_loop_step)

lemma migrate_tables_step:
  "migrate_tables E ts w = (r, w') \<Longrightarrow> run_step w w'"
proof (induction ts arbitrary: w)
  case Nil
  then show ?case by simp
next
  case (Cons t ts)
  obtain r1 w1 where c: "create_postgres_table E t (get_table_schema (source E) t)
      (add_log (Migrating_table t) w) = (r1, w1)"
    by (cases "create_postgres_table E t (get_table_schema (source E) t)
      (add_log (Migrating_table t) w)")
  obtain r2 w2 where d: "migrate_table_data E t w1 = (r2, w2)"
    by (cases "migrate_table_data E t w1")
  obtain r3 w3 where i: "create_indexes E t w2 = (r3, w3)"
    by (cases "create_indexes E t w2")
  have s1: "run_step w w1"
    using create_postgres_table_step [OF c] by (rule run_step_trans [OF run_step_add_log])
  have s2: "run_step w w2"
    using s1 migrate_table_data_step [OF d] by (rule run_step_trans)
  have s3: "run_step w w3"
    using s2 create_indexes_step [OF i] by (rule run_step_trans)
  show ?case
    using Cons.prems c d i s1 s2 s3
    by (auto simp: Let_def split: sum.splits dest!: Cons.IH intro: run_step_trans)
qed

lemma reset_loop_step: "run_step w (reset_loop E sqs w)"
proof (induction sqs arbitrary: w)
  case Nil
  show ?case by simp
next
  case (Cons a sqs)
  obtain t c where a: "a = (t, c)" by (cases a)
  show ?case
    unfolding a
    by (auto split: sum.splits
        intro: run_step_trans [OF run_step_log_session Cons.IH] run_step_trans [OF run_step_add_log Cons.IH])
qed

lemma reset_sequences_step:
  "reset_sequences E w = (r, w') \<Longrightarrow> run_step w w'"
  by (auto simp: reset_sequences_def reset_loop_step split: sum.splits)

lemma connect_databases_committed:
  "connect_databases E w = (r, w') \<Longrightarrow> committed w' = committed w"
  by (auto simp: connect_databases_def Let_def split: option.splits)

lemma migrate_body_failure:
  assumes "migrate_body E w = (Inl e, w')"
  shows "committed w' = committed w"
proof -
  obtain r1 w1 where c: "connect_databases E w = (r1, w1)"
    by (cases "connect_databases E w")
  obtain ts w2 where g: "get_sqlite_tables E w1 = (ts, w2)"
    by (cases "get_sqlite_tables E w1")
  obtain r3 w3 where m: "migrate_tables E ts w2 = (r3, w3)"
    by (cases "migrate_tables E ts w2")
  obtain r4 w4 where s: "reset_sequences E w3 = (r4, w4)"
    by (cases "reset_sequences E w3")
  have 1: "committed w1 = committed w"
    using c by (rule connect_databases_committed)
  have 2: "committed w2 = committed w1"
    using g by (auto simp: get_sqlite_tables_def Let_def)
  have 3: "committed w3 = committed w2"
    using migrate_tables_step [OF m] by (simp add: run_step_def)
  have 4: "committed w4 = committed w3"
    using reset_sequences_step [OF s] by (simp add: run_step_def)
  show ?thesis
    using assms c g m s 1 2 3 4
    by (auto simp: migrate_body_def split: sum.splits)
qed

lemma close_connections_closed:
  "sqlite_conn (close_connections w) \<noteq> Open_conn \<and> neon_conn (close_connections w) \<noteq> Open_conn"
  by (simp add: close_connections_def Let_def)

lemma close_connections_committed [simp]:
  "committed (close_connections w) = committed w"
  by (simp add: close_connections_def Let_def)

lemma close_connections_session:
  "neon_conn (close_connections w) \<noteq> Not_connected \<Longrightarrow>
   session (close_connections w) = committed w"
  by (simp add: close_connections_def Let_def split: if_splits)

lemma verify_tables_step:
  "verify_tables E ts w = (r, w') \<Longrightarrow> run_step w w'"
proof (induction ts arbitrary: w)
  case Nil
  then show ?case by simp
next
  case (Cons t ts)
  then show ?case
    by (auto simp: Let_def split: sum.splits if_splits
        dest!: Cons.IH intro: run_step_trans [OF run_step_add_log])
qed

lemma verify_body_committed:
  assumes "verify_body E w = (r, w')"
  shows "committed w' = committed w"
proof -
  obtain r1 w1 where c: "connect_databases E w = (r1, w1)"
    by (cases "connect_databases E w")
  obtain ts w2 where g: "get_sqlite_tables E w1 = (ts, w2)"
    by (cases "get_sqlite_tables E w1")
  obtain r3 w3 where v: "verify_tables E ts w2 = (r3, w3)"
    by (cases "verify_tables E ts w2")
  have 1: "committed w1 = committed w"
    using c by (rule connect_databases_committed)
  have 2: "committed w2 = committed w1"
    using g by (auto simp: get_sqlite_tables_def Let_def)
  have 3: "committed w3 = committed w2"
    using verify_tables_step [OF v] by (simp add: run_step_def)
  show ?thesis
    using assms c g v 1 2 3
    by (auto simp: verify_body_def split: sum.splits)
qed

lemma verify_migration_result:
  "fst (verify_migration E w) = Inr () \<and> committed (snd (verify_migration E w)) = committed w"
proof -
  obtain r w1 where b: "verify_body E (add_log Verifying w) = (r, w1)"
    by (cases "verify_body E (add_log Verifying w)")
  from verify_body_committed [OF b] have "committed w1 = committed w"
    by simp
  with b show ?thesis
    by (cases r) (simp_all add: verify_migration_def)
qed

section \<open>Failure, rollback and exit status\<close>

text \<open>
  C2: whatever happens in \<open>migrate\<close>, neither connection is open when it returns or
  raises. When it raises, the target holds committed exactly what it held before the run,
  the target connection (if one was made) was rolled back to that state, the failure is
  in the log, and \<open>main\<close> exits with status 1.
\<close>

theorem failure_rolls_back_and_connections_close:
  "sqlite_conn (snd (migrate E w)) \<noteq> Open_conn
   \<and> neon_conn (snd (migrate E w)) \<noteq> Open_conn
   \<and> (fst (migrate E w) = Inl e \<longrightarrow>
        committed (snd (migrate E w)) = committed w
        \<and> (neon_conn (snd (migrate E w)) \<noteq> Not_connected \<longrightarrow>
             session (snd (migrate E w)) = committed w)
        \<and> Migration_failed e \<in> set (log (snd (migrate E w)))
        \<and> fst (main E verify w) = 1)"
proof -
  obtain r w1 where b: "migrate_body E (add_log Starting_migration w) = (r, w1)"
    by (cases "migrate_body E (add_log Starting_migration w)")
  show ?thesis
  proof (cases r)
    case (Inr u)
    with b show ?thesis
      by (simp add: migrate_def close_connections_closed)
  next
    case (Inl e')
    with b have c: "committed w1 = committed w"
      using migrate_body_failure [of E "add_log Starting_migration w" e' w1] by simp
    define w3 where "w3 = (if neon_conn (add_log (Migration_failed e') w1) \<noteq> Not_connected
       then rollback (add_log (Migration_failed e') w1) else add_log (Migration_failed e') w1)"
    have m: "migrate E w = (Inl e', close_connections w3)"
      using b Inl by (simp add: migrate_def w3_def Let_def)
    have c3: "committed w3 = committed w"
      using c by (simp add: w3_def rollback_def)
    have l3: "Migration_failed e' \<in> set (log w3)"
      by (simp add: w3_def rollback_def)
    have l4: "log (close_connections w3) = log w3"
      by (simp add: close_connections_def Let_def)
    show ?thesis
      using m c3 l3 l4 close_connections_closed [of w3] close_connections_session [of w3]
      by (auto simp: main_def)
  qed
qed

theorem failure_rolls_back_and_connections_close_witness:
  "fst (migrate (shop_env refuses_orders_table) (initial_world audit_target))
     = Inl ''permission denied''
   \<and> committed (snd (migrate (shop_env refuses_orders_table) (initial_world audit_target)))
     = audit_target
   \<and> session (snd (migrate (shop_env refuses_orders_table) (initial_world audit_target)))
     = audit_target
   \<and> neon_conn (snd (migrate (shop_env refuses_orders_table) (initial_world audit_target)))
     = Closed_conn
   \<and> sqlite_conn (snd (migrate (shop_env refuses_orders_table) (initial_world audit_target)))
     = Closed_conn
   \<and> fst (main (shop_env refuses_orders_table) False (initial_world audit_target)) = 1"
proof -
  have raised: "fst (migrate (shop_env refuses_orders_table) (initial_world audit_target))
     = Inl ''permission denied''"
    by code_simp
  have conns: "neon_conn (snd (migrate (shop_env refuses_orders_table) (initial_world audit_target)))
     = Closed_conn
   \<and> sqlite_conn (snd (migrate (shop_env refuses_orders_table) (initial_world audit_target)))
     = Closed_conn"
    by code_simp
  show ?thesis
    using raised conns
      failure_rolls_back_and_connections_close [of "shop_env refuses_orders_table"
        "initial_world audit_target" "''permission denied''" False]
    by (simp add: initial_world_def)
qed

section \<open>Verification\<close>

text \<open>
  C10: \<open>verify_migration\<close> never raises and leaves the committed state of the target as
  it is; whatever it finds goes to the log only. So once \<open>migrate\<close> has returned
  normally, \<open>main\<close> exits with status 0, with or without \<open>--verify\<close> and whatever the
  counts are.
\<close>

theorem verify_only_logs:
  "fst (verify_migration E w) = Inr ()
   \<and> committed (snd (verify_migration E w)) = committed w
   \<and> (fst (migrate E w) = Inr () \<longrightarrow> fst (main E verify w) = 0)"
proof -
  have "fst (main E verify w) = 0" if ok: "fst (migrate E w) = Inr ()"
  proof -
    obtain w1 where m: "migrate E w = (Inr (), w1)"
      using ok by (cases "migrate E w") auto
    obtain r2 w2 where v: "verify_migration E w1 = (r2, w2)"
      by (cases "verify_migration E w1")
    with verify_migration_result [of E w1] have "r2 = Inr ()"
      by simp
    with m v show ?thesis
      by (simp add: main_def)
  qed
  with verify_migration_result [of E w] show ?thesis
    by blast
qed

theorem verify_only_logs_witness:
  "fst (migrate (shop_env refuses_every_row) (initial_world audit_target)) = Inr ()
   \<and> fst (main (shop_env refuses_every_row) True (initial_world audit_target)) = 0
   \<and> Count_mismatch ''users'' 2 0
       \<in> set (log (snd (main (shop_env refuses_every_row) True (initial_world audit_target))))
   \<and> Count_mismatch ''orders'' 4 0
       \<in> set (log (snd (main (shop_env refuses_every_row) True (initial_world audit_target))))"
proof -
  have ok: "fst (migrate (shop_env refuses_every_row) (initial_world audit_target)) = Inr ()"
    by code_simp
  have mismatch: "Count_mismatch ''users'' 2 0
       \<in> set (log (snd (main (shop_env refuses_every_row) True (initial_world audit_target))))
   \<and> Count_mismatch ''orders'' 4 0
       \<in> set (log (snd (main (shop_env refuses_every_row) True (initial_world audit_target))))"
    by code_simp
  show ?thesis
    using ok mismatch
      verify_only_logs [of "shop_env refuses_every_row" "initial_world audit_target" True]
    by simp
qed

section \<open>Sequences\<close>











section \<open>Indexes\<close>

lemma unique_indexes_skipped:
  "\<forall>ix \<in> set ixs. idx_unique ix \<noteq> 0 \<Longrightarrow> create_indexes_loop E t ixs w = (Inr (), w)"
  by (induction ixs) simp_all

text \<open>
  C7 at the index \<open>orders_ref_idx\<close>, made by CREATE UNIQUE INDEX (origin \<open>c\<close>): it is not
  auto-generated, and \<open>create_indexes\<close> issues no statement for it and logs nothing,
  because it tests the UNIQUE flag of the index.
\<close>

theorem created_unique_index_is_skipped:
  "map idx_origin (index_list (source (shop_env accepts_all)) ''orders'') = [''c'']
   \<and> create_indexes (shop_env accepts_all) ''orders'' w = (Inr (), w)"
  by (simp add: create_indexes_def index_list_def find_table_def shop_env_def shop_source_def
      users_table_def system_table_def orders_table_def)

section \<open>Rows of the migrated tables\<close>

lemma table_kept_refl [simp]: "table_kept t w w"
  by (simp add: table_kept_def)


lemma row_errors_append [simp]: "row_errors t (xs @ ys) = row_errors t xs @ row_errors t ys"
  by (simp add: row_errors_def)
































lemma null_if_empty_never_empty: "null_if_empty v \<noteq> VText []"
  by (simp add: null_if_empty_def)





section \<open>Running the migration twice\<close>





section \<open>The scenarios of the specification\<close>






section \<open>Further properties of the index recreator\<close>

text \<open>
  Whatever the target server answers, the loop of \<open>create_indexes\<close> returns normally: an
  error of the server is logged and the loop goes on. Only an index over an expression,
  whose column name is \<open>None\<close>, makes it raise (in \<open>join\<close>, outside the \<open>try\<close>).
\<close>

lemma index_errors_do_not_abort:
  assumes "\<forall>ix \<in> set ixs. idx_unique ix = 0 \<longrightarrow> all_names (idx_info ix) \<noteq> None"
  shows "fst (create_indexes_loop E t ixs w) = Inr ()"
  using assms
proof (induction ixs arbitrary: w)
  case Nil
  show ?case by simp
next
  case (Cons ix ixs)
  then show ?case
    by (auto split: option.splits sum.splits)
qed

lemma index_errors_do_not_abort_witness:
  "fst (create_indexes_loop (shop_env (\<lambda>db sql params. Some ''boom'')) ''users''
          (tbl_indexes users_table) w) = Inr ()
   \<and> log (snd (create_indexes_loop (shop_env (\<lambda>db sql params. Some ''boom'')) ''users''
          (tbl_indexes users_table) (initial_world audit_target)))
       = [Index_error ''users_name_idx'' ''boom'']"
proof -
  have "\<forall>ix \<in> set (tbl_indexes users_table). idx_unique ix = 0 \<longrightarrow> all_names (idx_info ix) \<noteq> None"
    by (simp add: users_table_def)
  from index_errors_do_not_abort [OF this] show ?thesis
    by (simp add: users_table_def shop_env_def initial_world_def add_log_def
        exec_create_index_def)
qed

lemma unique_indexes_skipped_witness:
  "idx_unique (tbl_indexes users_table ! 1) \<noteq> 0
   \<and> create_indexes_loop (shop_env accepts_all) ''users'' [tbl_indexes users_table ! 1]
        (initial_world audit_target) = (Inr (), initial_world audit_target)"
proof -
  have "\<forall>ix \<in> set [tbl_indexes users_table ! 1]. idx_unique ix \<noteq> 0"
    by (simp add: users_table_def)
  from unique_indexes_skipped [OF this] show ?thesis
    by (simp add: users_table_def)
qed

end
